theory Spec2Isabelle
  imports Main
begin

section \<open>Strings and Python values\<close>

text \<open>
  Strings are \<^typ>\<open>string\<close> (lists of 8-bit characters). \<open>str.upper\<close> and
  \<open>str.lower\<close> are modelled on the ASCII letters, the alphabet of SCPI; every other
  character is left as it is.
\<close>

definition ascii_lowercase :: string where
  "ascii_lowercase = ''abcdefghijklmnopqrstuvwxyz''"

definition ascii_uppercase :: string where
  "ascii_uppercase = ''ABCDEFGHIJKLMNOPQRSTUVWXYZ''"

definition to_upper :: "char \<Rightarrow> char" where
  "to_upper c = (case map_of (zip ascii_lowercase ascii_uppercase) c of Some u \<Rightarrow> u | None \<Rightarrow> c)"

definition to_lower :: "char \<Rightarrow> char" where
  "to_lower c = (case map_of (zip ascii_uppercase ascii_lowercase) c of Some l \<Rightarrow> l | None \<Rightarrow> c)"

definition upper :: "string \<Rightarrow> string" where
  "upper s = map to_upper s"

definition lower :: "string \<Rightarrow> string" where
  "lower s = map to_lower s"

text \<open>\<open>sep.join(xs)\<close>\<close>

fun join :: "string \<Rightarrow> string list \<Rightarrow> string" where
  "join sep [] = []"
| "join sep [x] = x"
| "join sep (x # y # ys) = x @ sep @ join sep (y # ys)"

text \<open>\<open>s.startswith(p)\<close> and \<open>s.endswith(p)\<close>\<close>

definition startswith :: "string \<Rightarrow> string \<Rightarrow> bool" where
  "startswith s p = (take (length p) s = p)"

definition endswith :: "string \<Rightarrow> string \<Rightarrow> bool" where
  "endswith s p = (length p \<le> length s \<and> drop (length s - length p) s = p)"

text \<open>
  The values a caller passes to a command or to the state converters: \<open>None\<close>, booleans,
  integers and strings. Floating-point arguments are not modelled.
\<close>

datatype pyvalue = PyNone | PyBool bool | PyInt int | PyStr string

fun nat_str :: "nat \<Rightarrow> string" where
  "nat_str n =
     (if n < 10 then [''0123456789'' ! n] else nat_str (n div 10) @ [''0123456789'' ! (n mod 10)])"

declare nat_str.simps [simp del]

text \<open>\<open>str(v)\<close>\<close>

fun py_str :: "pyvalue \<Rightarrow> string" where
  "py_str PyNone = ''None''"
| "py_str (PyBool b) = (if b then ''True'' else ''False'')"
| "py_str (PyInt i) = (if i < 0 then CHR ''-'' # nat_str (nat (- i)) else nat_str (nat i))"
| "py_str (PyStr s) = s"

text \<open>The exceptions the module raises, with their messages.\<close>

datatype error =
    RuntimeError string
  | ValueError string
  | TypeError string
  | ReError
  | NotModelled
  | InvalidSession
  | VisaIOError string

section \<open>Property: command composition\<close>

text \<open>
  A \<open>Property\<close> object holds the command name built so far and the argument separator.
  Its reference to the instrument is the session that the call is applied to
  (see \<open>Property_call\<close> below), so the record keeps the two data fields.
\<close>

record property =
  name :: string
  arg_separator :: string

text \<open>\<open>Property.__init__(inst, name, arg_separator)\<close>\<close>

definition Property_init :: "string \<Rightarrow> string \<Rightarrow> property" where
  "Property_init nm sep = \<lparr>name = upper nm, arg_separator = sep\<rparr>"
















text \<open>
  \<open>Property.__call__(*values, query=None)\<close> computes the message and hands it to the
  instrument's \<open>query\<close> or \<open>write\<close>. \<open>Property_dispatch\<close> is that choice.
\<close>

datatype dispatch = DQuery string | DWrite string

definition Property_dispatch :: "property \<Rightarrow> pyvalue list \<Rightarrow> bool option \<Rightarrow> dispatch" where
  "Property_dispatch self vals qry =
     (let args_passed = (length vals > 0);
          args = (if args_passed then '' '' @ join (arg_separator self) (map py_str vals) else '''');
          q = (case qry of None \<Rightarrow> \<not> args_passed | Some b \<Rightarrow> b)
      in if q then DQuery (name self @ ''?'' @ args) else DWrite (name self @ args))"

text \<open>\<open>Property.val2bool\<close> and \<open>Property.val2state\<close>\<close>

definition val2bool :: "pyvalue \<Rightarrow> error + bool" where
  "val2bool v =
     (case v of
        PyStr s \<Rightarrow>
          (let l = lower s in
           if l = ''on'' \<or> l = ''1'' then Inr True
           else if l = ''off'' \<or> l = ''0'' then Inr False
           else Inl (ValueError ''Invalid input''))
      | PyBool b \<Rightarrow> Inr b
      | PyInt i \<Rightarrow> Inr (i \<noteq> 0)
      | PyNone \<Rightarrow> Inr False)"

definition val2state :: "pyvalue \<Rightarrow> error + string" where
  "val2state v =
     (case val2bool v of
        Inl e \<Rightarrow> Inl e
      | Inr state \<Rightarrow> if state then Inr ''ON'' else Inr ''OFF'')"

section \<open>Regular expressions\<close>

text \<open>
  The resolver calls \<open>re.match(pattern, res, re.IGNORECASE)\<close> and reads \<open>group(0)\<close>
  of the match. The result of one such call is an exception, no match, or the text
  matched at the start of \<open>res\<close>.
\<close>

datatype re_result = ReRaise error | NoMatch | Matched string

text \<open>
  The fragment of the pattern language that the patterns built from ordinary port
  names use: literal characters, \<open>.\<close>, groups \<open>(...)\<close> and \<open>(?:...)\<close>, alternation
  and the greedy quantifiers \<open>*\<close>, \<open>+\<close>, \<open>?\<close>.
\<close>

datatype regex =
    Lit char
  | Dot
  | EmptyRe
  | Seq regex regex
  | Alt regex regex
  | Star regex
  | Opt regex

text \<open>
  \<open>rmatch r s\<close> lists what is left of \<open>s\<close> after each way \<open>r\<close> can match at its
  start, in the order in which the backtracking matcher tries them (first alternative
  first, longest repetition first). Letters compare without case; \<open>.\<close> matches any
  character but the newline.
\<close>

fun rmatch :: "regex \<Rightarrow> string \<Rightarrow> string list" where
  "rmatch (Lit c) s =
     (case s of [] \<Rightarrow> [] | x # xs \<Rightarrow> if to_lower x = to_lower c then [xs] else [])"
| "rmatch Dot s = (case s of [] \<Rightarrow> [] | x # xs \<Rightarrow> if x = CHR 0x0A then [] else [xs])"
| "rmatch EmptyRe s = [s]"
| "rmatch (Seq a b) s = concat (map (rmatch b) (rmatch a s))"
| "rmatch (Alt a b) s = rmatch a s @ rmatch b s"
| "rmatch (Opt a) s = rmatch a s @ [s]"
| "rmatch (Star a) s =
     concat (map (\<lambda>t. if length t < length s then rmatch (Star a) t else []) (rmatch a s)) @ [s]"

fun nullable :: "regex \<Rightarrow> bool" where
  "nullable (Lit c) = False"
| "nullable Dot = False"
| "nullable EmptyRe = True"
| "nullable (Seq a b) = (nullable a \<and> nullable b)"
| "nullable (Alt a b) = (nullable a \<or> nullable b)"
| "nullable (Star a) = True"
| "nullable (Opt a) = True"

text \<open>
  Parsing a pattern. A frame holds the finished alternatives and the items of the
  current alternative of one open group, both latest first. \<open>PError\<close> is
  \<open>re.error\<close>; \<open>PNotModelled\<close> marks syntax outside the fragment (character classes,
  escapes, anchors, counted, lazy and possessive repetition, repetition of a
  subpattern that can match the empty string, the other \<open>(?...)\<close> extensions).
\<close>

datatype parse_result = POk regex | PError | PNotModelled

type_synonym frame = "regex list \<times> regex list"

definition mk_seq :: "regex list \<Rightarrow> regex" where
  "mk_seq items = foldr Seq items EmptyRe"

fun mk_alt :: "regex list \<Rightarrow> regex" where
  "mk_alt [] = EmptyRe"
| "mk_alt [a] = a"
| "mk_alt (a # b # bs) = Alt a (mk_alt (b # bs))"

definition close_frame :: "frame \<Rightarrow> regex" where
  "close_frame f = mk_alt (rev (mk_seq (rev (snd f)) # fst f))"

definition quantify :: "char \<Rightarrow> regex \<Rightarrow> regex" where
  "quantify c x =
     (if c = CHR ''*'' then Star x else if c = CHR ''+'' then Seq x (Star x) else Opt x)"

fun parse_re :: "string \<Rightarrow> frame \<Rightarrow> frame list \<Rightarrow> parse_result" where
  "parse_re [] f st = (case st of [] \<Rightarrow> POk (close_frame f) | g # st' \<Rightarrow> PError)"
| "parse_re (c # cs) f st =
     (if c = CHR ''('' then
        (if startswith cs ''?'' then
           (if startswith cs ''?:'' then parse_re (drop 2 cs) ([], []) (f # st)
            else PNotModelled)
         else parse_re cs ([], []) (f # st))
      else if c = CHR '')'' then
        (case st of
           [] \<Rightarrow> PError
         | g # st' \<Rightarrow> parse_re cs (fst g, close_frame f # snd g) st')
      else if c = CHR ''|'' then parse_re cs (mk_seq (rev (snd f)) # fst f, []) st
      else if c \<in> set ''*+?'' then
        (case snd f of
           [] \<Rightarrow> PError
         | x # xs \<Rightarrow>
             if (cs \<noteq> [] \<and> hd cs \<in> set ''*+?{'') \<or> (c \<noteq> CHR ''?'' \<and> nullable x)
             then PNotModelled
             else parse_re cs (fst f, quantify c x # xs) st)
      else if c \<in> set ''[]{}^$'' \<or> c = CHR 0x5C then PNotModelled
      else parse_re cs (fst f, (if c = CHR ''.'' then Dot else Lit c) # snd f) st)"

text \<open>\<open>re.match(pattern, s, re.IGNORECASE)\<close>, with \<open>group(0)\<close> of the match\<close>

definition re_match_ignorecase :: "string \<Rightarrow> string \<Rightarrow> re_result" where
  "re_match_ignorecase pattern s =
     (case parse_re pattern ([], []) [] of
        PError \<Rightarrow> ReRaise ReError
      | PNotModelled \<Rightarrow> ReRaise NotModelled
      | POk r \<Rightarrow>
          (case rmatch r s of
             [] \<Rightarrow> NoMatch
           | t # ts \<Rightarrow> Matched (take (length s - length t) s)))"

section \<open>The transport\<close>

text \<open>
  The VISA resource behind a session belongs to an external library. It is modelled
  through the interface the session uses: a handle that is open or closed, that is a
  message-based resource or not, that answers successive reads with the texts the
  device has queued, and that records every transport call in a trace. A call on a
  closed handle raises \<open>InvalidSession\<close>; a read with nothing queued times out;
  closing an open handle is a transport call of its own, and closing a closed handle
  does nothing (the library swallows \<open>InvalidSession\<close> there).
\<close>

datatype io =
    IOWrite string
  | IORead
  | IOQuery string
  | IOReadRaw
  | IOQueryValues string
  | IOClose

record resource =
  message_based :: bool
  session_open :: bool
  attrs :: "(string \<times> pyvalue) list"
  replies :: "string list"
  trace :: "io list"

definition res_receive :: "io \<Rightarrow> resource \<Rightarrow> (error + string) \<times> resource" where
  "res_receive ev r =
     (if \<not> session_open r then (Inl InvalidSession, r)
      else case replies r of
             [] \<Rightarrow> (Inl (VisaIOError ''VI_ERROR_TMO''), r\<lparr>trace := trace r @ [ev]\<rparr>)
           | x # xs \<Rightarrow> (Inr x, r\<lparr>replies := xs, trace := trace r @ [ev]\<rparr>))"

definition res_write :: "resource \<Rightarrow> string \<Rightarrow> (error + nat) \<times> resource" where
  "res_write r msg =
     (if \<not> session_open r then (Inl InvalidSession, r)
      else (Inr (length msg), r\<lparr>trace := trace r @ [IOWrite msg]\<rparr>))"

definition res_read :: "resource \<Rightarrow> (error + string) \<times> resource" where
  "res_read r = res_receive IORead r"

definition res_query :: "resource \<Rightarrow> string \<Rightarrow> (error + string) \<times> resource" where
  "res_query r msg = res_receive (IOQuery msg) r"

definition res_read_raw :: "resource \<Rightarrow> (error + string) \<times> resource" where
  "res_read_raw r = res_receive IOReadRaw r"

definition res_query_values :: "resource \<Rightarrow> string \<Rightarrow> (error + string) \<times> resource" where
  "res_query_values r msg = res_receive (IOQueryValues msg) r"

definition res_close :: "resource \<Rightarrow> resource" where
  "res_close r =
     (if session_open r then r\<lparr>session_open := False, trace := trace r @ [IOClose]\<rparr> else r)"

definition res_open :: "resource \<Rightarrow> resource" where
  "res_open r = r\<lparr>session_open := True\<rparr>"

definition res_setattr :: "resource \<Rightarrow> string \<times> pyvalue \<Rightarrow> resource" where
  "res_setattr r kv = r\<lparr>attrs := kv # filter (\<lambda>p. fst p \<noteq> fst kv) (attrs r)\<rparr>"

section \<open>SCPI_Instrument: the session\<close>

text \<open>The handshake setting is a string or a boolean.\<close>

datatype handshake = HsBool bool | HsStr string

record session =
  backend :: string
  inst :: "resource option"
  port :: "string option"
  port_match :: bool
  rid :: "string option"
  resource_params :: "(string \<times> pyvalue) list"
  session_arg_separator :: string
  prefix_cmds :: bool
  handshake :: handshake

text \<open>
  What the module reads from outside: the platform name, the resources the manager of
  a backend lists, the regular-expression matcher, and the manager's \<open>open_resource\<close>.
\<close>

record env =
  system :: string
  list_resources :: "string \<Rightarrow> string list"
  re_match :: "string \<Rightarrow> string \<Rightarrow> re_result"
  open_resource :: "string \<Rightarrow> error + resource"

text \<open>A method returns a value or raises, and leaves the session in some state.\<close>

type_synonym 'a result = "(error + 'a) \<times> session"

text \<open>\<open>SCPI_Instrument.__getattr__(name)\<close>\<close>

definition SCPI_getattr :: "session \<Rightarrow> string \<Rightarrow> property" where
  "SCPI_getattr self nm =
     Property_init ((if prefix_cmds self then '':'' else []) @ nm) (session_arg_separator self)"

text \<open>The property \<open>connected\<close>\<close>

definition connected :: "session \<Rightarrow> bool" where
  "connected self = (case inst self of None \<Rightarrow> False | Some r \<Rightarrow> session_open r)"

text \<open>\<open>disconnect()\<close>\<close>

definition disconnect :: "session \<Rightarrow> unit result" where
  "disconnect self =
     (case inst self of
        None \<Rightarrow> (Inr (), self)
      | Some r \<Rightarrow> (Inr (), self\<lparr>inst := Some (res_close r)\<rparr>))"

text \<open>
  \<open>__del__()\<close>. After the disconnect of a connected session it deletes the attributes
  \<open>__inst\<close> and \<open>__rm\<close>: the object has no handle attribute any more and is no
  session of this model (every method reads \<open>self.__inst\<close>). What remains to observe is
  the transport handle the session held, in the state teardown leaves it, which is the
  second component of the result.
\<close>

definition SCPI_del :: "session \<Rightarrow> (error + unit) \<times> resource option" where
  "SCPI_del self =
     (case (if connected self then disconnect self else (Inr (), self)) of
        (Inl e, s') \<Rightarrow> (Inl e, inst s')
      | (Inr u, s') \<Rightarrow> (Inr (), inst s'))"

text \<open>\<open>read()\<close>\<close>

definition read :: "session \<Rightarrow> string result" where
  "read self =
     (case inst self of
        None \<Rightarrow> (Inl (RuntimeError ''Can not read, instrument not connected''), self)
      | Some r \<Rightarrow> (case res_read r of (resp, r') \<Rightarrow> (resp, self\<lparr>inst := Some r'\<rparr>)))"

text \<open>\<open>if x\<close> on a handshake setting, and \<open>hs != self.handshake\<close>\<close>

fun truthy :: "handshake \<Rightarrow> bool" where
  "truthy (HsBool b) = b"
| "truthy (HsStr t) = (t \<noteq> [])"

fun differs :: "string \<Rightarrow> handshake \<Rightarrow> bool" where
  "differs hs (HsBool b) = True"
| "differs hs (HsStr t) = (hs \<noteq> t)"

text \<open>\<open>_handle_handshake()\<close>\<close>

definition handle_handshake :: "session \<Rightarrow> unit result" where
  "handle_handshake self =
     (if truthy (handshake self) then
        (case read self of
           (Inl e, s') \<Rightarrow> (Inl e, s')
         | (Inr hs, s') \<Rightarrow>
             if differs hs (handshake s') then (Inl (RuntimeError hs), s') else (Inr (), s'))
      else (Inr (), self))"

text \<open>\<open>write(msg)\<close> (\<open>write\<close> is a reserved word here)\<close>

definition SCPI_write :: "session \<Rightarrow> string \<Rightarrow> nat result" where
  "SCPI_write self msg =
     (case inst self of
        None \<Rightarrow> (Inl (RuntimeError ''Can not write, instrument not connected.''), self)
      | Some r \<Rightarrow>
          (case res_write r msg of
             (Inl e, r') \<Rightarrow> (Inl e, self\<lparr>inst := Some r'\<rparr>)
           | (Inr resp, r') \<Rightarrow>
               (case handle_handshake (self\<lparr>inst := Some r'\<rparr>) of
                  (Inl e, s') \<Rightarrow> (Inl e, s')
                | (Inr u, s') \<Rightarrow> (Inr resp, s'))))"

text \<open>\<open>query(msg)\<close>\<close>

definition query :: "session \<Rightarrow> string \<Rightarrow> string result" where
  "query self msg =
     (case inst self of
        None \<Rightarrow> (Inl (RuntimeError ''Can not query, instrument not connected''), self)
      | Some r \<Rightarrow>
          (case res_query r msg of
             (Inl e, r') \<Rightarrow> (Inl e, self\<lparr>inst := Some r'\<rparr>)
           | (Inr resp, r') \<Rightarrow>
               (case handle_handshake (self\<lparr>inst := Some r'\<rparr>) of
                  (Inl e, s') \<Rightarrow> (Inl e, s')
                | (Inr u, s') \<Rightarrow> (Inr resp, s'))))"

text \<open>The property \<open>id\<close>\<close>

definition SCPI_id :: "session \<Rightarrow> string result" where
  "SCPI_id self = query self ''*IDN?''"

text \<open>
  \<open>connect(explicit_remote=False)\<close>; \<open>None\<close> stands for the default \<open>False\<close>,
  \<open>Some m\<close> for a string. \<open>connect_open\<close> is its step that opens the resource
  with the given id and applies the resource parameters, or reopens the handle the
  session already has.
\<close>

definition connect_open :: "env \<Rightarrow> session \<Rightarrow> string \<Rightarrow> error + resource" where
  "connect_open e self i =
     (case inst self of
        None \<Rightarrow>
          (case open_resource e i of
             Inl err \<Rightarrow> Inl err
           | Inr r \<Rightarrow> Inr (foldl res_setattr r (resource_params self)))
      | Some r \<Rightarrow> Inr (res_open r))"

definition connect :: "env \<Rightarrow> session \<Rightarrow> string option \<Rightarrow> unit result" where
  "connect e self explicit_remote =
     (case rid self of
        None \<Rightarrow> (Inl (RuntimeError ''Can not connect. No resource id provided.''), self)
      | Some i \<Rightarrow>
          if i = [] then (Inl (RuntimeError ''Can not connect. No resource id provided.''), self)
          else
            (case connect_open e self i of
               Inl err \<Rightarrow> (Inl err, self)
             | Inr r \<Rightarrow>
                 (case explicit_remote of
                    None \<Rightarrow>
                      (case SCPI_id (self\<lparr>inst := Some r\<rparr>) of
                         (Inl err, s') \<Rightarrow> (Inl err, s')
                       | (Inr x, s') \<Rightarrow> (Inr (), s'))
                  | Some m \<Rightarrow>
                      (case SCPI_write (self\<lparr>inst := Some r\<rparr>) m of
                         (Inl err, s') \<Rightarrow> (Inl err, s')
                       | (Inr n, s') \<Rightarrow> (Inr (), s')))))"

text \<open>
  \<open>Property.__call__\<close> on a node of the session: the message goes to the session's
  \<open>query\<close> or \<open>write\<close>.
\<close>

datatype response = Reply string | Written nat

definition Property_call :: "session \<Rightarrow> property \<Rightarrow> pyvalue list \<Rightarrow> bool option \<Rightarrow> response result" where
  "Property_call s self vals qry =
     (case Property_dispatch self vals qry of
        DQuery m \<Rightarrow> (case query s m of (r, s') \<Rightarrow> (map_sum id Reply r, s'))
      | DWrite m \<Rightarrow> (case SCPI_write s m of (r, s') \<Rightarrow> (map_sum id Written r, s')))"

section \<open>Port resolution\<close>

text \<open>\<open>s.replace(old, new)\<close>: every occurrence, left to right, without overlap\<close>

function replace :: "string \<Rightarrow> string \<Rightarrow> string \<Rightarrow> string" where
  "replace s old new =
     (if old = [] then new @ concat (map (\<lambda>c. c # new) s)
      else if s = [] then []
      else if startswith s old then new @ replace (drop (length old) s) old new
      else hd s # replace (tl s) old new)"
  by pat_completeness auto
termination
  by (relation "measure (\<lambda>(s, old, new). length s)") auto

declare replace.simps [simp del]

text \<open>\<open>repr\<close> of a list of strings, as an f-string prints it\<close>

definition repr_strs :: "string list \<Rightarrow> string" where
  "repr_strs xs = ''['' @ join '', '' (map (\<lambda>x. [CHR 0x27] @ x @ [CHR 0x27]) xs) @ '']''"

text \<open>
  \<open>_match_resource(resource)\<close>. The list comprehension stops at the first exception;
  a match object is represented by its \<open>group(0)\<close>, so \<open>matches[0].group(0)\<close> is
  the content of the head of the filtered list.
\<close>

fun collect_matches :: "(string \<Rightarrow> re_result) \<Rightarrow> string list \<Rightarrow> error + string option list" where
  "collect_matches m [] = Inr []"
| "collect_matches m (res # rest) =
     (case m res of
        ReRaise e \<Rightarrow> Inl e
      | NoMatch \<Rightarrow> (case collect_matches m rest of Inl e \<Rightarrow> Inl e | Inr ms \<Rightarrow> Inr (None # ms))
      | Matched g \<Rightarrow>
          (case collect_matches m rest of Inl e \<Rightarrow> Inl e | Inr ms \<Rightarrow> Inr (Some g # ms)))"

definition match_resource :: "env \<Rightarrow> session \<Rightarrow> string \<Rightarrow> error + string" where
  "match_resource e self resource =
     (case collect_matches (re_match e resource) (list_resources e (backend self)) of
        Inl err \<Rightarrow> Inl err
      | Inr found \<Rightarrow>
          (let matches = filter (\<lambda>m. m \<noteq> None) found in
           if length matches = 0 then Inl (RuntimeError (''Could not find resource '' @ resource))
           else if length matches > 1 then
             Inl (RuntimeError (''Found multiple resources matching '' @ resource))
           else Inr (the (hd matches))))"

text \<open>The pattern \<open>_set_port_windows\<close> builds from a port that passed its prefix check\<close>

definition windows_prefixes :: "string list" where
  "windows_prefixes = [''COM'', ''USB'', ''GPIB'', ''TCPIP'']"

definition windows_pattern :: "string \<Rightarrow> error + string" where
  "windows_pattern prt =
     (let port_name = upper prt in
      if list_ex (startswith port_name) (tl windows_prefixes) then
        Inr (if endswith port_name ''INSTR'' \<or> endswith port_name ''SOCKET'' then prt
             else prt @ ''::.*::INSTR'')
      else if startswith port_name ''COM'' then
        (let r_port = replace prt ''COM'' [] in
         Inr (''ASRL((?:COM)?'' @ r_port @ '')::INSTR''))
      else
        Inl (ValueError (''Port must start with one of the following: ''
               @ repr_strs windows_prefixes @ ''.'')))"

text \<open>\<open>_set_port_windows(prt, match)\<close>\<close>

definition set_port_windows :: "env \<Rightarrow> session \<Rightarrow> string \<Rightarrow> bool \<Rightarrow> unit result" where
  "set_port_windows e self prt match =
     (if \<not> list_ex (startswith (upper prt)) windows_prefixes then
        (Inl (ValueError (''Port must start with one of the following: ''
                @ repr_strs windows_prefixes @ ''.'')), self)
      else
        (case (if inst self \<noteq> None then disconnect self else (Inr (), self)) of
           (Inl err, s1) \<Rightarrow> (Inl err, s1)
         | (Inr u, s1) \<Rightarrow>
             (let s2 = s1\<lparr>port := Some prt\<rparr> in
              case windows_pattern prt of
                Inl err \<Rightarrow> (Inl err, s2)
              | Inr resource_pattern \<Rightarrow>
                  (case (if match then match_resource e s2 resource_pattern
                         else Inr resource_pattern) of
                     Inl err \<Rightarrow> (Inl err, s2)
                   | Inr resource \<Rightarrow> (Inr (), s2\<lparr>rid := Some resource\<rparr>)))))"

text \<open>The pattern \<open>_set_port_linux\<close> builds\<close>

definition linux_prefixes :: "string list" where
  "linux_prefixes = [''USB'', ''GPIB'', ''TCPIP'']"

definition linux_pattern :: "string \<Rightarrow> string" where
  "linux_pattern prt =
     (let port_name = upper prt in
      if list_ex (startswith port_name) linux_prefixes then
        (if endswith port_name ''INSTR'' \<or> endswith port_name ''SOCKET'' then prt
         else prt @ ''::.*::INSTR'')
      else
        (let p1 = (if \<not> startswith prt ''ASRL''
                   then (if \<not> startswith prt ''/'' then ''ASRL/'' else ''ASRL'') @ prt
                   else prt)
         in if \<not> endswith p1 ''::INSTR'' then p1 @ ''::INSTR'' else p1))"

text \<open>\<open>_set_port_linux(prt, match)\<close>\<close>

definition set_port_linux :: "env \<Rightarrow> session \<Rightarrow> string \<Rightarrow> bool \<Rightarrow> unit result" where
  "set_port_linux e self prt match =
     (case (if inst self \<noteq> None then disconnect self else (Inr (), self)) of
        (Inl err, s1) \<Rightarrow> (Inl err, s1)
      | (Inr u, s1) \<Rightarrow>
          (let s2 = s1\<lparr>port := Some prt\<rparr>;
               resource_pattern = linux_pattern prt
           in case (if match then match_resource e s2 resource_pattern
                    else Inr resource_pattern) of
                Inl err \<Rightarrow> (Inl err, s2)
              | Inr resource \<Rightarrow> (Inr (), s2\<lparr>rid := Some resource\<rparr>)))"

text \<open>The setter of the property \<open>port\<close>\<close>

definition set_port :: "env \<Rightarrow> session \<Rightarrow> string option \<Rightarrow> unit result" where
  "set_port e self p =
     (case p of
        None \<Rightarrow> (Inr (), self\<lparr>port := None, rid := None\<rparr>)
      | Some prt \<Rightarrow>
          if system e = ''Windows'' then set_port_windows e self prt (port_match self)
          else set_port_linux e self prt (port_match self))"

text \<open>
  \<open>SCPI_Instrument.__init__\<close>; the handshake \<open>True\<close> becomes the token \<open>OK\<close>.
\<close>

definition SCPI_init ::
  "env \<Rightarrow> string option \<Rightarrow> bool \<Rightarrow> string \<Rightarrow> handshake \<Rightarrow> string \<Rightarrow> bool \<Rightarrow> (string \<times> pyvalue) list
     \<Rightarrow> unit result" where
  "SCPI_init e prt pm be hs sep prefix params =
     (let s0 = \<lparr>backend = be, inst = None, port = None, port_match = pm, rid = None,
                resource_params = params, session_arg_separator = sep,
                prefix_cmds = prefix, handshake = hs\<rparr>
      in case set_port e s0 prt of
           (Inl err, s1) \<Rightarrow> (Inl err, s1)
         | (Inr u, s1) \<Rightarrow>
             (Inr (), s1\<lparr>session_arg_separator := sep, prefix_cmds := prefix,
                          handshake := (if hs = HsBool True then HsStr ''OK'' else hs)\<rparr>))"

section \<open>Operations that require a message-based resource\<close>

text \<open>
  The decorator \<open>requires_message_based\<close> is a function of the module, outside every
  class body, so the name \<open>self.__inst\<close> in its wrapper is not rewritten to
  \<open>_SCPI_Instrument__inst\<close>: the wrapper evaluates \<open>getattr(self, "__inst")\<close>.
  Attribute access finds the entries of the instance dictionary (stored under the
  names the class body writes, private names rewritten) and the members of the class;
  any other name goes to \<open>SCPI_Instrument.__getattr__\<close>. \<open>ObjAttr nm\<close> stands for
  the value of a real attribute other than the instrument handle; it is not looked
  into, being neither a resource nor a \<open>Property\<close>.
\<close>

datatype pyobj = ObjNone | ObjResource resource | ObjProperty property | ObjAttr string

definition instance_attr_names :: "string list" where
  "instance_attr_names =
     [''_SCPI_Instrument__backend'', ''_SCPI_Instrument__rm'', ''_SCPI_Instrument__inst'',
      ''_SCPI_Instrument__port'', ''_SCPI_Instrument__port_match'', ''_SCPI_Instrument__rid'',
      ''_SCPI_Instrument__resource_params'', ''arg_separator'', ''prefix_cmds'',
      ''handshake'', ''_lock'']"

definition class_attr_names :: "string list" where
  "class_attr_names =
     [''__init__'', ''__del__'', ''__getattr__'', ''__enter__'', ''__exit__'', ''backend'',
      ''instrument'', ''port'', ''port_match'', ''rid'', ''resource_params'', ''id'', ''value'',
      ''connected'', ''is_connected'', ''connect'', ''disconnect'', ''write'', ''read'',
      ''query'', ''reset'', ''init'', ''_handle_handshake'', ''_set_port_windows'',
      ''_set_port_linux'', ''_match_resource'', ''read_raw'', ''query_ascii_values'',
      ''query_binary_values'', ''__class__'', ''__dict__'', ''__doc__'', ''__module__'']"

definition session_getattribute :: "session \<Rightarrow> string \<Rightarrow> pyobj" where
  "session_getattribute self nm =
     (if nm = ''_SCPI_Instrument__inst'' \<or> nm = ''instrument'' then
        (case inst self of None \<Rightarrow> ObjNone | Some r \<Rightarrow> ObjResource r)
      else if nm \<in> set instance_attr_names \<or> nm \<in> set class_attr_names then ObjAttr nm
      else ObjProperty (SCPI_getattr self nm))"

text \<open>\<open>isinstance(x, MessageBasedResource)\<close> and \<open>type(x).__name__\<close>\<close>

fun isinstance_MessageBasedResource :: "pyobj \<Rightarrow> bool" where
  "isinstance_MessageBasedResource (ObjResource r) = message_based r"
| "isinstance_MessageBasedResource x = False"

fun type_name :: "pyobj \<Rightarrow> string" where
  "type_name ObjNone = ''NoneType''"
| "type_name (ObjResource r) = (if message_based r then ''MessageBasedResource'' else ''Resource'')"
| "type_name (ObjProperty p) = ''Property''"
| "type_name (ObjAttr nm) = ''type('' @ nm @ '')''"

definition requires_message_based ::
  "string \<Rightarrow> (session \<Rightarrow> 'a result) \<Rightarrow> session \<Rightarrow> 'a result" where
  "requires_message_based func_name func self =
     (if \<not> isinstance_MessageBasedResource (session_getattribute self ''__inst'') then
        (Inl (TypeError (''The method '' @ [CHR 0x27] @ func_name @ [CHR 0x27]
                @ '' requires a MessageBasedResource, but got ''
                @ type_name (session_getattribute self ''__inst'') @ '' instead.'')), self)
      else func self)"

text \<open>The bodies of \<open>read_raw\<close>, \<open>query_ascii_values\<close> and \<open>query_binary_values\<close>\<close>

definition read_raw_body :: "session \<Rightarrow> string result" where
  "read_raw_body self =
     (case inst self of
        None \<Rightarrow> (Inl (RuntimeError ''Can not read, instrument not connected''), self)
      | Some r \<Rightarrow> (case res_read_raw r of (resp, r') \<Rightarrow> (resp, self\<lparr>inst := Some r'\<rparr>)))"

definition query_values_body :: "string \<Rightarrow> session \<Rightarrow> string result" where
  "query_values_body msg self =
     (case inst self of
        None \<Rightarrow> (Inl (RuntimeError ''Can not query, instrument not connected''), self)
      | Some r \<Rightarrow>
          (case res_query_values r msg of
             (Inl e, r') \<Rightarrow> (Inl e, self\<lparr>inst := Some r'\<rparr>)
           | (Inr resp, r') \<Rightarrow>
               (case handle_handshake (self\<lparr>inst := Some r'\<rparr>) of
                  (Inl e, s') \<Rightarrow> (Inl e, s')
                | (Inr u, s') \<Rightarrow> (Inr resp, s'))))"

text \<open>The decorated methods\<close>

definition read_raw :: "session \<Rightarrow> string result" where
  "read_raw = requires_message_based ''read_raw'' read_raw_body"

definition query_ascii_values :: "string \<Rightarrow> session \<Rightarrow> string result" where
  "query_ascii_values msg = requires_message_based ''query_ascii_values'' (query_values_body msg)"

definition query_binary_values :: "string \<Rightarrow> session \<Rightarrow> string result" where
  "query_binary_values msg = requires_message_based ''query_binary_values'' (query_values_body msg)"

section \<open>Notions used to state the properties\<close>


text \<open>The inputs that the docstring of \<open>val2bool\<close> lists: on/off, 1/0, booleans.\<close>

fun accepted_state_input :: "pyvalue \<Rightarrow> bool" where
  "accepted_state_input (PyStr s) = (lower s \<in> set [''on'', ''off'', ''1'', ''0''])"
| "accepted_state_input (PyInt i) = (i = 0 \<or> i = 1)"
| "accepted_state_input (PyBool b) = True"
| "accepted_state_input PyNone = False"

text \<open>Does the matcher find the pattern at the start of a resource, or raise on it?\<close>

definition is_match :: "re_result \<Rightarrow> bool" where
  "is_match r = (case r of Matched g \<Rightarrow> True | NoMatch \<Rightarrow> False | ReRaise err \<Rightarrow> False)"

definition is_raise :: "re_result \<Rightarrow> bool" where
  "is_raise r = (case r of ReRaise err \<Rightarrow> True | NoMatch \<Rightarrow> False | Matched g \<Rightarrow> False)"

definition group0 :: "re_result \<Rightarrow> string option" where
  "group0 r = (case r of Matched g \<Rightarrow> Some g | NoMatch \<Rightarrow> None | ReRaise err \<Rightarrow> None)"

definition matching :: "env \<Rightarrow> session \<Rightarrow> string \<Rightarrow> string list" where
  "matching e self pat = filter (\<lambda>res. is_match (re_match e pat res)) (list_resources e (backend self))"

definition pattern_accepted :: "env \<Rightarrow> session \<Rightarrow> string \<Rightarrow> bool" where
  "pattern_accepted e self pat =
     (\<not> list_ex (\<lambda>res. is_raise (re_match e pat res)) (list_resources e (backend self)))"

text \<open>A Windows or a Posix host that sees the given resources, with the matcher above\<close>

definition host :: "string \<Rightarrow> string list \<Rightarrow> env" where
  "host sys rs =
     \<lparr>system = sys, list_resources = (\<lambda>b. rs), re_match = re_match_ignorecase,
      open_resource = (\<lambda>i. Inl (VisaIOError ''VI_ERROR_RSRC_NFOUND''))\<rparr>"

text \<open>A session as the constructor leaves it when no port is given\<close>

definition fresh :: session where
  "fresh =
     \<lparr>backend = [], inst = None, port = None, port_match = True, rid = None,
      resource_params = [], session_arg_separator = '','', prefix_cmds = False,
      handshake = HsBool False\<rparr>"

text \<open>An open message-based resource with the given replies queued\<close>

definition device :: "string list \<Rightarrow> resource" where
  "device rs = \<lparr>message_based = True, session_open = True, attrs = [], replies = rs, trace = []\<rparr>"

section \<open>Properties of command composition\<close>






















text \<open>
  Claim C1. With \<open>query\<close> left unset a call is a query when no values are passed and a
  write otherwise; the query message is the name, \<open>?\<close>, and, when values are passed, a
  space and the values joined by the argument separator; the write message is the name
  and, when values are passed, a space and the joined values; \<open>query=True\<close> and
  \<open>query=False\<close> force the mode. The message goes to the session's \<open>query\<close> or
  \<open>write\<close> accordingly.
\<close>

theorem call_dispatch:
  "Property_dispatch p vs None =
     (if vs = [] then DQuery (name p @ ''?'')
      else DWrite (name p @ '' '' @ join (arg_separator p) (map py_str vs)))
   \<and> Property_dispatch p vs (Some True) =
       DQuery (name p @ ''?'' @ (if vs = [] then [] else '' '' @ join (arg_separator p) (map py_str vs)))
   \<and> Property_dispatch p vs (Some False) =
       DWrite (name p @ (if vs = [] then [] else '' '' @ join (arg_separator p) (map py_str vs)))
   \<and> Property_call s p vs q =
       (case Property_dispatch p vs q of
          DQuery m \<Rightarrow> (map_sum id Reply (fst (query s m)), snd (query s m))
        | DWrite m \<Rightarrow> (map_sum id Written (fst (SCPI_write s m)), snd (SCPI_write s m)))"
  by (simp add: Property_dispatch_def Property_call_def split: dispatch.splits prod.splits)

lemma lower_tokens:
  "lower ''ON'' = ''on''" "lower ''OFF'' = ''off''"
  by (simp_all add: lower_def to_lower_def ascii_lowercase_def ascii_uppercase_def)

text \<open>
  Claim C8. \<open>val2state\<close> returns \<open>ON\<close> for the strings on and 1 in any case, for the
  number 1 and for \<open>True\<close>, and \<open>OFF\<close> for the strings off and 0 in any case, for the
  number 0 and for \<open>False\<close>; it maps \<open>ON\<close> to \<open>ON\<close> and \<open>OFF\<close> to \<open>OFF\<close>; so on
  every accepted input, applying it to its own result returns that result.
\<close>

theorem val2state_idempotent:
  "(lower s = ''on'' \<or> lower s = ''1'' \<longrightarrow> val2state (PyStr s) = Inr ''ON'')
   \<and> (lower s = ''off'' \<or> lower s = ''0'' \<longrightarrow> val2state (PyStr s) = Inr ''OFF'')
   \<and> val2state (PyInt 1) = Inr ''ON'' \<and> val2state (PyInt 0) = Inr ''OFF''
   \<and> val2state (PyBool True) = Inr ''ON'' \<and> val2state (PyBool False) = Inr ''OFF''
   \<and> val2state (PyStr ''ON'') = Inr ''ON'' \<and> val2state (PyStr ''OFF'') = Inr ''OFF''
   \<and> (accepted_state_input x \<longrightarrow>
        (\<exists>t. val2state x = Inr t \<and> (t = ''ON'' \<or> t = ''OFF'')
             \<and> val2state (PyStr t) = val2state x))"
proof -
  have l: "lower ''ON'' = ''on''" "lower ''OFF'' = ''off''"
    by (simp_all add: lower_def to_lower_def ascii_lowercase_def ascii_uppercase_def)
  have 1: "lower s = ''on'' \<or> lower s = ''1'' \<longrightarrow> val2state (PyStr s) = Inr ''ON''"
    by (auto simp: val2state_def val2bool_def Let_def)
  have 2: "lower s = ''off'' \<or> lower s = ''0'' \<longrightarrow> val2state (PyStr s) = Inr ''OFF''"
    by (auto simp: val2state_def val2bool_def Let_def)
  have 3: "val2state (PyInt 1) = Inr ''ON''" "val2state (PyInt 0) = Inr ''OFF''"
    "val2state (PyBool True) = Inr ''ON''" "val2state (PyBool False) = Inr ''OFF''"
    by (simp_all add: val2state_def val2bool_def)
  have 4: "val2state (PyStr ''ON'') = Inr ''ON''" "val2state (PyStr ''OFF'') = Inr ''OFF''"
    by (simp_all add: val2state_def val2bool_def l)
  have 5: "accepted_state_input x \<longrightarrow>
        (\<exists>t. val2state x = Inr t \<and> (t = ''ON'' \<or> t = ''OFF'') \<and> val2state (PyStr t) = val2state x)"
    by (cases x) (auto simp: val2state_def val2bool_def l Let_def)
  from 1 2 3 4 5 show ?thesis by blast
qed

theorem val2state_idempotent_witness:
  "lower ''oFf'' = ''off'' \<and> val2state (PyStr ''oFf'') = Inr ''OFF''
   \<and> accepted_state_input (PyStr ''oFf'')
   \<and> val2state (PyStr ''OFF'') = val2state (PyStr ''oFf'')
   \<and> lower ''On'' = ''on'' \<and> val2state (PyStr ''On'') = Inr ''ON''"
proof -
  have a: "lower ''oFf'' = ''off''" "lower ''On'' = ''on''"
    by (simp_all add: lower_def to_lower_def ascii_lowercase_def ascii_uppercase_def)
  have b: "accepted_state_input (PyStr ''oFf'')" by (simp add: a)
  from val2state_idempotent [of "''oFf''" "PyStr ''oFf''"] val2state_idempotent [of "''On''" "PyStr ''On''"] a b
  show ?thesis by auto
qed

section \<open>Properties of the session\<close>




lemma handshake_off: "\<not> truthy (handshake s) \<Longrightarrow> handle_handshake s = (Inr (), s)"
  by (simp add: handle_handshake_def)





lemma close_closed: "\<not> session_open r \<Longrightarrow> res_close r = r"
  by (simp add: res_close_def)

text \<open>
  Claim C7. \<open>disconnect\<close> never raises, leaves the session disconnected, and changes
  nothing when repeated or when the session is not connected; on a connected session
  it closes the handle, which the transport records. \<open>__del__\<close> never raises: on a
  connected session it leaves the handle closed through that same close call, and on
  a disconnected session it makes no transport call and leaves the handle as it was.
\<close>

theorem disconnect_idempotent:
  "fst (disconnect s) = Inr ()
   \<and> \<not> connected (snd (disconnect s))
   \<and> disconnect (snd (disconnect s)) = (Inr (), snd (disconnect s))
   \<and> (\<not> connected s \<longrightarrow> disconnect s = (Inr (), s))
   \<and> (inst s = Some r \<and> session_open r \<longrightarrow>
        disconnect s = (Inr (), s\<lparr>inst := Some (r\<lparr>session_open := False, trace := trace r @ [IOClose]\<rparr>)\<rparr>)
        \<and> SCPI_del s = (Inr (), Some (r\<lparr>session_open := False, trace := trace r @ [IOClose]\<rparr>)))
   \<and> fst (SCPI_del s) = Inr ()
   \<and> (\<not> connected s \<longrightarrow> SCPI_del s = (Inr (), inst s))"
  by (cases "inst s") (auto simp: disconnect_def connected_def SCPI_del_def res_close_def)

theorem disconnect_idempotent_witness:
  "\<not> connected fresh \<and> disconnect fresh = (Inr (), fresh) \<and> SCPI_del fresh = (Inr (), None)
   \<and> session_open (device [])
   \<and> SCPI_del (fresh\<lparr>inst := Some (device [])\<rparr>) =
       (Inr (), Some ((device [])\<lparr>session_open := False, trace := [IOClose]\<rparr>))
   \<and> fst (disconnect (snd (disconnect (fresh\<lparr>inst := Some (device [])\<rparr>)))) = Inr ()"
  using disconnect_idempotent [of fresh] 
    disconnect_idempotent [of "fresh\<lparr>inst := Some (device [])\<rparr>" "device []"]
    disconnect_idempotent [of "snd (disconnect (fresh\<lparr>inst := Some (device [])\<rparr>))"]
  by (simp add: fresh_def device_def connected_def)

text \<open>
  The name \<open>__inst\<close> is neither in the instance dictionary nor a member of the class,
  so the wrapper of \<open>requires_message_based\<close> receives a \<open>Property\<close> node from
  \<open>__getattr__\<close>, which is no message-based resource: the wrapper raises for every
  session.
\<close>

lemma getattr_inst_is_property:
  "session_getattribute s ''__inst'' = ObjProperty (SCPI_getattr s ''__inst'')"
  by (simp add: session_getattribute_def instance_attr_names_def class_attr_names_def)

lemma requires_message_based_raises:
  "requires_message_based f body s =
     (Inl (TypeError (''The method '' @ [CHR 0x27] @ f @ [CHR 0x27]
            @ '' requires a MessageBasedResource, but got Property instead.'')), s)"
  by (simp add: requires_message_based_def getattr_inst_is_property)

text \<open>
  Claim C6. On a message-based transport the three operations should reach the
  transport call. On a connected session whose resource is message-based, \<open>read_raw\<close>,
  \<open>query_ascii_values\<close> and \<open>query_binary_values\<close> raise \<open>TypeError\<close> and leave the
  session untouched, while the undecorated body of \<open>read_raw\<close> would have returned the
  queued reply.
\<close>

theorem read_raw_on_message_based:
  "read_raw (fresh\<lparr>inst := Some (device [''1.5''])\<rparr>) =
     (Inl (TypeError (''The method '' @ [CHR 0x27] @ ''read_raw'' @ [CHR 0x27]
            @ '' requires a MessageBasedResource, but got Property instead.'')),
      fresh\<lparr>inst := Some (device [''1.5''])\<rparr>)
   \<and> query_ascii_values ''MEAS?'' (fresh\<lparr>inst := Some (device [''1.5''])\<rparr>) =
     (Inl (TypeError (''The method '' @ [CHR 0x27] @ ''query_ascii_values'' @ [CHR 0x27]
            @ '' requires a MessageBasedResource, but got Property instead.'')),
      fresh\<lparr>inst := Some (device [''1.5''])\<rparr>)
   \<and> query_binary_values ''MEAS?'' (fresh\<lparr>inst := Some (device [''1.5''])\<rparr>) =
     (Inl (TypeError (''The method '' @ [CHR 0x27] @ ''query_binary_values'' @ [CHR 0x27]
            @ '' requires a MessageBasedResource, but got Property instead.'')),
      fresh\<lparr>inst := Some (device [''1.5''])\<rparr>)
   \<and> message_based (device [''1.5'']) \<and> connected (fresh\<lparr>inst := Some (device [''1.5''])\<rparr>)
   \<and> fst (read_raw_body (fresh\<lparr>inst := Some (device [''1.5''])\<rparr>)) = Inr ''1.5''"
  by (simp add: read_raw_def query_ascii_values_def query_binary_values_def
      requires_message_based_raises read_raw_body_def res_read_raw_def
      res_receive_def fresh_def device_def connected_def)

section \<open>Properties of port resolution\<close>

lemma collect_matches_no_raise:
  "\<not> list_ex (\<lambda>res. is_raise (m res)) rs \<Longrightarrow>
     collect_matches m rs = Inr (map (\<lambda>res. group0 (m res)) rs)"
  by (induction rs) (auto simp: is_raise_def group0_def split: re_result.splits)

lemma filter_found:
  "filter (\<lambda>x. x \<noteq> None) (map (\<lambda>res. group0 (m res)) rs) =
   map (\<lambda>res. group0 (m res)) (filter (\<lambda>res. is_match (m res)) rs)"
  by (induction rs) (auto simp: is_match_def group0_def split: re_result.splits)

lemma match_resource_accepted:
  assumes "pattern_accepted e s pat"
  shows "match_resource e s pat =
     (if length (matching e s pat) = 0 then Inl (RuntimeError (''Could not find resource '' @ pat))
      else if length (matching e s pat) > 1 then
        Inl (RuntimeError (''Found multiple resources matching '' @ pat))
      else Inr (the (group0 (re_match e pat (hd (matching e s pat))))))"
proof -
  let ?f = "\<lambda>res. group0 (re_match e pat res)"
  have c: "collect_matches (re_match e pat) (list_resources e (backend s)) =
      Inr (map ?f (list_resources e (backend s)))"
    using assms unfolding pattern_accepted_def by (rule collect_matches_no_raise)
  have f: "filter (\<lambda>x. x \<noteq> None) (map ?f (list_resources e (backend s))) = map ?f (matching e s pat)"
    unfolding matching_def by (rule filter_found)
  have "match_resource e s pat =
     (let matches = map ?f (matching e s pat) in
      if length matches = 0 then Inl (RuntimeError (''Could not find resource '' @ pat))
      else if length matches > 1 then
        Inl (RuntimeError (''Found multiple resources matching '' @ pat))
      else Inr (the (hd matches)))"
    by (simp only: match_resource_def c sum.case f)
  then show ?thesis
    by (cases "matching e s pat") (simp_all add: Let_def)
qed

lemma matching_backend: "backend s' = backend s \<Longrightarrow> matching e s' pat = matching e s pat"
  by (simp add: matching_def)

lemma accepted_backend: "backend s' = backend s \<Longrightarrow> pattern_accepted e s' pat = pattern_accepted e s pat"
  by (simp add: pattern_accepted_def)

lemma match_resource_backend: "backend s' = backend s \<Longrightarrow> match_resource e s' pat = match_resource e s pat"
  by (simp add: match_resource_def)

lemma backend_disconnect: "backend (snd (disconnect s)) = backend s"
  by (simp add: disconnect_def split: option.splits)

lemma rid_disconnect: "rid (snd (disconnect s)) = rid s"
  by (simp add: disconnect_def split: option.splits)

lemma fst_disconnect: "fst (disconnect s) = Inr ()"
  by (simp add: disconnect_def split: option.splits)

lemma set_port_windows_fail:
  assumes "list_ex (startswith (upper prt)) windows_prefixes" "windows_pattern prt = Inr pat"
    "match_resource e s pat = Inl err"
  shows "fst (set_port_windows e s prt True) = Inl err \<and> rid (snd (set_port_windows e s prt True)) = rid s"
proof -
  define s1 where "s1 = (if inst s \<noteq> None then snd (disconnect s) else s)"
  have d: "(if inst s \<noteq> None then disconnect s else (Inr (), s)) = (Inr (), s1)"
    by (simp add: s1_def prod_eq_iff fst_disconnect)
  have b: "backend s1 = backend s" and r: "rid s1 = rid s"
    by (simp_all add: s1_def backend_disconnect rid_disconnect)
  have "match_resource e (s1\<lparr>port := Some prt\<rparr>) pat = Inl err"
    using assms(3) match_resource_backend [of "s1\<lparr>port := Some prt\<rparr>" s e pat] b by simp
  then show ?thesis
    using assms(1,2) d r by (simp add: set_port_windows_def Let_def)
qed

lemma set_port_linux_fail:
  assumes "match_resource e s (linux_pattern prt) = Inl err"
  shows "fst (set_port_linux e s prt True) = Inl err \<and> rid (snd (set_port_linux e s prt True)) = rid s"
proof -
  define s1 where "s1 = (if inst s \<noteq> None then snd (disconnect s) else s)"
  have d: "(if inst s \<noteq> None then disconnect s else (Inr (), s)) = (Inr (), s1)"
    by (simp add: s1_def prod_eq_iff fst_disconnect)
  have b: "backend s1 = backend s" and r: "rid s1 = rid s"
    by (simp_all add: s1_def backend_disconnect rid_disconnect)
  have "match_resource e (s1\<lparr>port := Some prt\<rparr>) (linux_pattern prt) = Inl err"
    using assms match_resource_backend [of "s1\<lparr>port := Some prt\<rparr>" s e "linux_pattern prt"] b by simp
  then show ?thesis
    using d r by (simp add: set_port_linux_def Let_def)
qed

lemma com4_not_found:
  "fst (set_port (host ''Windows'' [''ASRL3::INSTR'', ''USB0::1234::5678::INSTR'']) fresh (Some ''COM4''))
     = Inl (RuntimeError ''Could not find resource ASRL((?:COM)?4)::INSTR'')"
  by code_simp

lemma usb_numbered_not_found:
  "fst (set_port (host ''Windows'' [''USB0::1234::5678::INSTR'', ''USB1::1234::5678::INSTR'']) fresh (Some ''USB''))
     = Inl (RuntimeError ''Could not find resource USB::.*::INSTR'')"
  by code_simp

lemma usb_bare_ambiguous:
  "fst (set_port (host ''Windows'' [''USB::1234::5678::INSTR'', ''USB::4321::8765::INSTR'']) fresh (Some ''USB''))
     = Inl (RuntimeError ''Found multiple resources matching USB::.*::INSTR'')"
  by code_simp

lemma usb0_ambiguous:
  "fst (set_port (host ''Windows'' [''USB0::1234::5678::INSTR'', ''USB0::4321::8765::INSTR'']) fresh (Some ''USB0''))
     = Inl (RuntimeError ''Found multiple resources matching USB0::.*::INSTR'')"
  by code_simp

lemma unbalanced_pattern_raises:
  "fst (set_port (host ''Windows'' [''USB0::1234::5678::INSTR'']) fresh (Some ''USB(''))
     = Inl ReError"
  by code_simp

text \<open>
  Claim C4, as stated, fails: the port \<open>USB\<close> builds the pattern \<open>USB::.*::INSTR\<close>,
  which the two USB entries \<open>USB0::...\<close> and \<open>USB1::...\<close> do not match, so the
  assignment fails with "Could not find resource", not with "Found multiple resources";
  and a port that builds a pattern the matcher rejects fails with the matcher's own
  exception although no resource matches.
\<close>

theorem usb_prefix_counterexample:
  "fst (set_port (host ''Windows'' [''USB0::1234::5678::INSTR'', ''USB1::1234::5678::INSTR'']) fresh (Some ''USB''))
     = Inl (RuntimeError ''Could not find resource USB::.*::INSTR'')
   \<and> fst (set_port (host ''Windows'' [''USB0::1234::5678::INSTR'', ''USB1::1234::5678::INSTR'']) fresh (Some ''USB''))
     \<noteq> Inl (RuntimeError ''Found multiple resources matching USB::.*::INSTR'')
   \<and> fst (set_port (host ''Windows'' [''USB0::1234::5678::INSTR'']) fresh (Some ''USB(''))
     = Inl ReError"
  by (simp add: usb_numbered_not_found unbalanced_pattern_raises)

text \<open>
  Claim C4, amended. For a pattern on which the matcher raises for no listed resource:
  with no matching resource \<open>_match_resource\<close> raises "Could not find resource", with
  two or more it raises "Found multiple resources matching", with exactly one it returns
  a resource id; a port assignment with matching enabled fails with the same error on
  either platform and leaves the resource id as it was. The port \<open>COM4\<close> is not found
  among \<open>ASRL3::INSTR\<close> and \<open>USB0::1234::5678::INSTR\<close>; the port \<open>USB\<close> is not found
  among entries \<open>USB0::...\<close> and \<open>USB1::...\<close> and is ambiguous among two entries whose
  first segment is exactly \<open>USB\<close>; the port \<open>USB0\<close> is ambiguous among two entries
  \<open>USB0::...\<close>.
\<close>

theorem resolution_needs_exactly_one:
  "pattern_accepted e s pat \<Longrightarrow>
     (length (matching e s pat) = 0 \<longrightarrow>
        match_resource e s pat = Inl (RuntimeError (''Could not find resource '' @ pat)))
     \<and> (length (matching e s pat) > 1 \<longrightarrow>
        match_resource e s pat = Inl (RuntimeError (''Found multiple resources matching '' @ pat)))
     \<and> (length (matching e s pat) = 1 \<longrightarrow>
        match_resource e s pat = Inr (the (group0 (re_match e pat (hd (matching e s pat))))))
     \<and> (length (matching e s pat) \<noteq> 1 \<and> list_ex (startswith (upper prt)) windows_prefixes
          \<and> windows_pattern prt = Inr pat \<longrightarrow>
        fst (set_port_windows e s prt True) =
          Inl (RuntimeError ((if length (matching e s pat) = 0 then ''Could not find resource ''
                              else ''Found multiple resources matching '') @ pat))
        \<and> rid (snd (set_port_windows e s prt True)) = rid s)
     \<and> (length (matching e s pat) \<noteq> 1 \<and> linux_pattern prt = pat \<longrightarrow>
        fst (set_port_linux e s prt True) =
          Inl (RuntimeError ((if length (matching e s pat) = 0 then ''Could not find resource ''
                              else ''Found multiple resources matching '') @ pat))
        \<and> rid (snd (set_port_linux e s prt True)) = rid s)
     \<and> fst (set_port (host ''Windows'' [''ASRL3::INSTR'', ''USB0::1234::5678::INSTR'']) fresh (Some ''COM4''))
         = Inl (RuntimeError ''Could not find resource ASRL((?:COM)?4)::INSTR'')
     \<and> fst (set_port (host ''Windows'' [''USB0::1234::5678::INSTR'', ''USB1::1234::5678::INSTR'']) fresh (Some ''USB''))
         = Inl (RuntimeError ''Could not find resource USB::.*::INSTR'')
     \<and> fst (set_port (host ''Windows'' [''USB::1234::5678::INSTR'', ''USB::4321::8765::INSTR'']) fresh (Some ''USB''))
         = Inl (RuntimeError ''Found multiple resources matching USB::.*::INSTR'')
     \<and> fst (set_port (host ''Windows'' [''USB0::1234::5678::INSTR'', ''USB0::4321::8765::INSTR'']) fresh (Some ''USB0''))
         = Inl (RuntimeError ''Found multiple resources matching USB0::.*::INSTR'')"
proof -
  assume acc: "pattern_accepted e s pat"
  let ?n = "length (matching e s pat)"
  let ?err = "RuntimeError ((if ?n = 0 then ''Could not find resource ''
                              else ''Found multiple resources matching '') @ pat)"
  note mr = match_resource_accepted [OF acc]
  have a: "?n = 0 \<longrightarrow> match_resource e s pat = Inl (RuntimeError (''Could not find resource '' @ pat))"
    by (simp add: mr)
  have b: "?n > 1 \<longrightarrow> match_resource e s pat = Inl (RuntimeError (''Found multiple resources matching '' @ pat))"
    by (simp add: mr)
  have c: "?n = 1 \<longrightarrow> match_resource e s pat = Inr (the (group0 (re_match e pat (hd (matching e s pat)))))"
    by (simp add: mr)
  have f: "match_resource e s pat = Inl ?err" if "?n \<noteq> 1"
  proof -
    from that have "?n = 0 \<or> ?n > 1" by arith
    then show ?thesis using a b by auto
  qed
  have w: "?n \<noteq> 1 \<and> list_ex (startswith (upper prt)) windows_prefixes \<and> windows_pattern prt = Inr pat \<longrightarrow>
        fst (set_port_windows e s prt True) = Inl ?err
        \<and> rid (snd (set_port_windows e s prt True)) = rid s"
    using set_port_windows_fail [of prt pat e s ?err] f by blast
  have l: "?n \<noteq> 1 \<and> linux_pattern prt = pat \<longrightarrow>
        fst (set_port_linux e s prt True) = Inl ?err
        \<and> rid (snd (set_port_linux e s prt True)) = rid s"
    using set_port_linux_fail [of e s prt ?err] f by blast
  from a b c w l com4_not_found usb_numbered_not_found usb_bare_ambiguous usb0_ambiguous
  show ?thesis by blast
qed

theorem resolution_needs_exactly_one_witness:
  "pattern_accepted (host ''Windows'' [''USB0::1234::5678::INSTR'', ''USB0::4321::8765::INSTR'']) fresh ''USB0::.*::INSTR''
   \<and> length (matching (host ''Windows'' [''USB0::1234::5678::INSTR'', ''USB0::4321::8765::INSTR'']) fresh ''USB0::.*::INSTR'') = 2
   \<and> match_resource (host ''Windows'' [''USB0::1234::5678::INSTR'', ''USB0::4321::8765::INSTR'']) fresh ''USB0::.*::INSTR''
       = Inl (RuntimeError ''Found multiple resources matching USB0::.*::INSTR'')
   \<and> fst (set_port_windows (host ''Windows'' [''USB0::1234::5678::INSTR'', ''USB0::4321::8765::INSTR'']) fresh ''USB0'' True)
       = Inl (RuntimeError ''Found multiple resources matching USB0::.*::INSTR'')"
proof -
  let ?e = "host ''Windows'' [''USB0::1234::5678::INSTR'', ''USB0::4321::8765::INSTR'']"
  have 1: "pattern_accepted ?e fresh ''USB0::.*::INSTR''" by code_simp
  have 2: "length (matching ?e fresh ''USB0::.*::INSTR'') = 2" by code_simp
  have 3: "list_ex (startswith (upper ''USB0'')) windows_prefixes" by code_simp
  have 4: "windows_pattern ''USB0'' = Inr ''USB0::.*::INSTR''" by code_simp
  from resolution_needs_exactly_one [OF 1, of "''USB0''"] 2 3 4
  show ?thesis using 1 by simp
qed

text \<open>
  The ports \<open>COM3\<close> and \<open>USB0\<close> resolve to the resources \<open>ASRL3::INSTR\<close> and
  \<open>USB0::1234::5678::INSTR\<close> of the list.
\<close>

lemma claimed_examples_resolve:
  "set_port (host ''Windows'' [''ASRL3::INSTR'', ''USB0::1234::5678::INSTR'']) fresh (Some ''COM3'')
     = (Inr (), fresh\<lparr>port := Some ''COM3'', rid := Some ''ASRL3::INSTR''\<rparr>)
   \<and> set_port (host ''Windows'' [''ASRL3::INSTR'', ''USB0::1234::5678::INSTR'']) fresh (Some ''USB0'')
     = (Inr (), fresh\<lparr>port := Some ''USB0'', rid := Some ''USB0::1234::5678::INSTR''\<rparr>)"
  by code_simp

text \<open>
  Claim C3. The resolved id should be the matching resource string of the list.
  \<open>_match_resource\<close> returns \<open>group(0)\<close> of a match that is anchored at the start of
  the resource only: with the single resource \<open>ASRL3::INSTR::0\<close> listed, the port
  \<open>COM3\<close> matches exactly that resource and resolves to \<open>ASRL3::INSTR\<close>, which is
  not in the list.
\<close>

theorem resolved_id_is_matched_prefix:
  "set_port (host ''Windows'' [''ASRL3::INSTR::0'']) fresh (Some ''COM3'')
     = (Inr (), fresh\<lparr>port := Some ''COM3'', rid := Some ''ASRL3::INSTR''\<rparr>)
   \<and> matching (host ''Windows'' [''ASRL3::INSTR::0'']) fresh ''ASRL((?:COM)?3)::INSTR'' = [''ASRL3::INSTR::0'']
   \<and> ''ASRL3::INSTR'' \<notin> set [''ASRL3::INSTR::0'']"
  by code_simp

section \<open>Properties of connect\<close>

lemma id_query_trace:
  assumes "session_open r"
  shows "\<exists>r'. inst (snd (query (s\<lparr>inst := Some r\<rparr>) msg)) = Some r' \<and> session_open r' \<and>
           trace r' = trace r @ IOQuery msg #
             (if truthy (handshake s) \<and> replies r \<noteq> [] then [IORead] else [])"
proof (cases "replies r")
  case Nil
  with assms show ?thesis
    by (simp add: query_def res_query_def res_receive_def)
next
  case (Cons a rest)
  with assms show ?thesis
    by (cases "replies r"; cases rest)
      (simp_all add: query_def res_query_def res_receive_def handle_handshake_def read_def
        res_read_def)
qed

lemma write_trace:
  assumes "session_open r"
  shows "\<exists>r'. inst (snd (SCPI_write (s\<lparr>inst := Some r\<rparr>) msg)) = Some r' \<and> session_open r' \<and>
           trace r' = trace r @ IOWrite msg # (if truthy (handshake s) then [IORead] else [])"
  using assms
  by (cases "replies r")
    (simp_all add: SCPI_write_def res_write_def res_receive_def handle_handshake_def read_def
      res_read_def)

lemma connect_default:
  "rid s = Some i \<Longrightarrow> i \<noteq> [] \<Longrightarrow> connect_open e s i = Inr r \<Longrightarrow>
     snd (connect e s None) = snd (query (s\<lparr>inst := Some r\<rparr>) ''*IDN?'')
     \<and> fst (connect e s None) = map_sum id (\<lambda>x. ()) (fst (query (s\<lparr>inst := Some r\<rparr>) ''*IDN?''))"
  by (simp add: connect_def SCPI_id_def split: prod.splits sum.splits)

lemma connect_explicit:
  "rid s = Some i \<Longrightarrow> i \<noteq> [] \<Longrightarrow> connect_open e s i = Inr r \<Longrightarrow>
     snd (connect e s (Some m)) = snd (SCPI_write (s\<lparr>inst := Some r\<rparr>) m)
     \<and> fst (connect e s (Some m)) = map_sum id (\<lambda>x. ()) (fst (SCPI_write (s\<lparr>inst := Some r\<rparr>) m))"
  by (simp add: connect_def split: prod.splits sum.splits)

text \<open>
  Claim C10. For a session with a resource id, once \<open>connect\<close> has opened the
  resource (or reopened its handle) it sends exactly one \<open>*IDN?\<close> query when called
  with the default argument, and writes the given string instead when
  \<open>explicit_remote\<close> is a string; with a handshake token set the handshake read
  follows, and when the text read is not the token \<open>connect\<close> raises
  \<open>RuntimeError\<close> carrying it although the handle is open.
\<close>

theorem connect_sends_idn:
  "rid s = Some i \<Longrightarrow> i \<noteq> [] \<Longrightarrow> connect_open e s i = Inr r \<Longrightarrow> session_open r \<Longrightarrow>
     (\<exists>r'. inst (snd (connect e s None)) = Some r' \<and> session_open r' \<and>
        trace r' = trace r @ IOQuery ''*IDN?'' #
          (if truthy (handshake s) \<and> replies r \<noteq> [] then [IORead] else []))
     \<and> (\<exists>r'. inst (snd (connect e s (Some m))) = Some r' \<and> session_open r' \<and>
        trace r' = trace r @ IOWrite m # (if truthy (handshake s) then [IORead] else []))
     \<and> (handshake s = HsStr tok \<and> tok \<noteq> [] \<and> replies r = a # h # rest \<and> h \<noteq> tok \<longrightarrow>
          fst (connect e s None) = Inl (RuntimeError h) \<and> connected (snd (connect e s None)))"
proof (intro conjI impI)
  assume p: "rid s = Some i" "i \<noteq> []" "connect_open e s i = Inr r" "session_open r"
  show "\<exists>r'. inst (snd (connect e s None)) = Some r' \<and> session_open r' \<and>
        trace r' = trace r @ IOQuery ''*IDN?'' #
          (if truthy (handshake s) \<and> replies r \<noteq> [] then [IORead] else [])"
    using connect_default [OF p(1,2,3)] id_query_trace [OF p(4), of s "''*IDN?''"] by simp
  show "\<exists>r'. inst (snd (connect e s (Some m))) = Some r' \<and> session_open r' \<and>
        trace r' = trace r @ IOWrite m # (if truthy (handshake s) then [IORead] else [])"
    using connect_explicit [OF p(1,2,3), of m] write_trace [OF p(4), of s m] by simp
  assume h: "handshake s = HsStr tok \<and> tok \<noteq> [] \<and> replies r = a # h # rest \<and> h \<noteq> tok"
  have q: "query (s\<lparr>inst := Some r\<rparr>) ''*IDN?'' =
       (Inl (RuntimeError h),
        s\<lparr>inst := Some (r\<lparr>replies := rest, trace := trace r @ [IOQuery ''*IDN?'', IORead]\<rparr>)\<rparr>)"
    using p(4) h
    by (simp add: query_def res_query_def res_receive_def handle_handshake_def read_def res_read_def)
  show "fst (connect e s None) = Inl (RuntimeError h)"
    using connect_default [OF p(1,2,3)] q by simp
  show "connected (snd (connect e s None))"
    using connect_default [OF p(1,2,3)] q p(4) by (simp add: connected_def)
qed

theorem connect_sends_idn_witness:
  "fst (connect ((host ''Linux'' [])\<lparr>open_resource := (\<lambda>i. Inr (device [''ACME,42'', ''ERR'']))\<rparr>)
          (fresh\<lparr>rid := Some ''ASRL3::INSTR'', handshake := HsStr ''OK''\<rparr>) None)
     = Inl (RuntimeError ''ERR'')
   \<and> connected (snd (connect ((host ''Linux'' [])\<lparr>open_resource := (\<lambda>i. Inr (device [''ACME,42'', ''ERR'']))\<rparr>)
          (fresh\<lparr>rid := Some ''ASRL3::INSTR'', handshake := HsStr ''OK''\<rparr>) None))"
proof -
  let ?e = "(host ''Linux'' [])\<lparr>open_resource := (\<lambda>i. Inr (device [''ACME,42'', ''ERR'']))\<rparr>"
  let ?s = "fresh\<lparr>rid := Some ''ASRL3::INSTR'', handshake := HsStr ''OK''\<rparr>"
  have 1: "rid ?s = Some ''ASRL3::INSTR''" by (simp add: fresh_def)
  have 2: "''ASRL3::INSTR'' \<noteq> []" by simp
  have 3: "connect_open ?e ?s ''ASRL3::INSTR'' = Inr (device [''ACME,42'', ''ERR''])"
    by (simp add: connect_open_def fresh_def host_def)
  have 4: "session_open (device [''ACME,42'', ''ERR''])" by (simp add: device_def)
  have 5: "handshake ?s = HsStr ''OK'' \<and> ''OK'' \<noteq> [] \<and>
      replies (device [''ACME,42'', ''ERR'']) = ''ACME,42'' # ''ERR'' # [] \<and> ''ERR'' \<noteq> ''OK''"
    by (simp add: fresh_def device_def)
  from connect_sends_idn [OF 1 2 3 4, of "''x''" "''OK''" "''ACME,42''" "''ERR''" "[]"] 5
  show ?thesis by blast
qed

end
